theory Spec2Isabelle
  imports Main "HOL-Library.Word"
begin

section \<open>Go values that cmd/notation/sign.go handles\<close>

text \<open>
  sign.go looks at a Go error in two ways only: it reads its text (\<open>err.Error()\<close>, also
  through the verbs \<open>%v\<close> and \<open>%s\<close>) and it asks \<open>errors.As\<close> whether the error
  chain holds a \<open>notation.ErrorPushSignatureFailed\<close>. An error value is therefore its
  text together with the answer \<open>errors.As\<close> gives for that type.
\<close>

datatype error = GoError (Error: string) (AsErrorPushSignatureFailed: bool)

text \<open>
  \<open>errors.New\<close> and \<open>fmt.Errorf\<close> without the verb \<open>%w\<close> build a fresh error
  that wraps nothing, so \<open>errors.As\<close> finds no push failure in it.
\<close>

definition errors_New :: "string \<Rightarrow> error" where
  "errors_New text = GoError text False"

definition fmt_Errorf :: "string \<Rightarrow> error" where
  "fmt_Errorf formatted = GoError formatted False"

text \<open>\<open>strings.HasPrefix\<close> and \<open>strings.Contains\<close> of the Go standard library.\<close>

fun strings_HasPrefix :: "string \<Rightarrow> string \<Rightarrow> bool" where
  "strings_HasPrefix s [] = True"
| "strings_HasPrefix [] (p # ps) = False"
| "strings_HasPrefix (c # cs) (p # ps) = (c = p \<and> strings_HasPrefix cs ps)"

fun strings_Contains :: "string \<Rightarrow> string \<Rightarrow> bool" where
  "strings_Contains [] substr = strings_HasPrefix [] substr"
| "strings_Contains (c # cs) substr =
     (strings_HasPrefix (c # cs) substr \<or> strings_Contains cs substr)"

text \<open>
  The verb \<open>%v\<close> on a slice of strings: the elements separated by one space, in
  square brackets.
\<close>

fun join_space :: "string list \<Rightarrow> string" where
  "join_space [] = []"
| "join_space [x] = x"
| "join_space (x # y # ys) = x @ '' '' @ join_space (y # ys)"

definition fmt_v_strings :: "string list \<Rightarrow> string" where
  "fmt_v_strings xs = ''['' @ join_space xs @ '']''"

text \<open>\<open>fmt.Println\<close> of two operands: a space between them and a newline after.\<close>

definition fmt_Println2 :: "string \<Rightarrow> string \<Rightarrow> string" where
  "fmt_Println2 a b = a @ '' '' @ b @ [CHR 0x0A]"

text \<open>\<open>ocispec.Descriptor\<close>; \<open>Digest\<close> holds what \<open>Digest.String()\<close> returns.\<close>

record Descriptor =
  MediaType :: string
  Digest :: string
  Size :: int

text \<open>\<open>registry.Reference\<close> of oras-go.\<close>

record registry_Reference =
  Registry :: string
  Repository :: string
  Reference :: string

text \<open>
  \<open>notation.SignOptions\<close> embeds \<open>notation.SignerSignOptions\<close>; the record extension
  is the embedding. A Go \<open>map[string]string\<close> is a finite map.
\<close>

record SignerSignOptions =
  ArtifactReference :: string
  SignatureMediaType :: string
  ExpiryDuration :: "64 word"
  PluginConfig :: "string \<rightharpoonup> string"

record SignOptions = SignerSignOptions +
  UserMetadata :: "string \<rightharpoonup> string"

text \<open>
  \<open>cmd.SignerFlagOpts\<close>: sign.go reads the field \<open>SignatureFormat\<close> only. The
  logging and secure flag options are passed on unread, so their types are left open.
\<close>

record SignerFlagOpts =
  SignatureFormat :: string

record ('l, 's) signOpts =
  LoggingFlagOpts :: 'l
  SignerFlagOpts :: SignerFlagOpts
  SecureFlagOpts :: 's
  expiry :: "64 word"
  pluginConfig :: "string list"
  userMetadata :: "string list"
  reference :: string
  signatureManifest :: string
  localContent :: bool

section \<open>What a run does to the outside\<close>

text \<open>
  A run is observed through the list of its effects, in the order they happen: the
  lines written to standard output and to standard error, and the calls that leave the
  command for the signer configuration, a registry or an OCI layout on disk. The calls
  carry what sign.go passes. The \<open>context.Context\<close> that sign.go threads through these
  calls carries the logger and cancellation only and is left out.
\<close>

datatype 'repo event =
    Stdout string
  | Stderr string
  | CallGetSigner SignerFlagOpts
  | CallGetSignatureRepositoryForSign string bool
  | CallOciLayoutRepositoryForSign string bool
  | CallResolve 'repo string
  | CallSign 'repo SignOptions

text \<open>
  The functions sign.go calls and does not define: the collaborators of other
  packages (notation-go, oras-go, go-digest, fmt) and helpers of this repository that are
  not in the source file. Each is called at most once per run with effects, so a
  function of its arguments stands for whatever it answers in that run.
  \<open>digestValidate d\<close> is \<open>digest.Digest(d).Validate() == nil\<close>;
  \<open>ReferenceString\<close> is \<open>registry.Reference.String\<close>;
  \<open>fmtDescriptor\<close> is the verb \<open>%+v\<close> on a descriptor;
  \<open>ParseReference\<close> is \<open>registry.ParseReference\<close>.
\<close>

record ('s, 'signer, 'repo) env =
  GetSigner :: "SignerFlagOpts \<Rightarrow> error + 'signer"
  getSignatureRepositoryForSign :: "'s \<Rightarrow> string \<Rightarrow> bool \<Rightarrow> error + 'repo"
  GetEnvelopeMediaType :: "string \<Rightarrow> error + string"
  ParseFlagMap :: "string list \<Rightarrow> string \<Rightarrow> error + (string \<rightharpoonup> string)"
  PflagPluginConfigName :: string
  PflagUserMetadataName :: string
  parseOCILayoutReference :: "string \<Rightarrow> error + (string \<times> string)"
  ociLayoutRepositoryForSign :: "string \<Rightarrow> bool \<Rightarrow> error + 'repo"
  Resolve :: "'repo \<Rightarrow> string \<Rightarrow> error + Descriptor"
  Sign :: "'signer \<Rightarrow> 'repo \<Rightarrow> SignOptions \<Rightarrow> error + Descriptor"
  digestValidate :: "string \<Rightarrow> bool"
  ParseReference :: "string \<Rightarrow> error + registry_Reference"
  ReferenceString :: "registry_Reference \<Rightarrow> string"
  fmtDescriptor :: "Descriptor \<Rightarrow> string"

text \<open>Effects that happened before a step are put in front of the step's own.\<close>

definition emitting :: "'e list \<Rightarrow> 'a \<times> 'e list \<Rightarrow> 'a \<times> 'e list" where
  "emitting es r = (fst r, es @ snd r)"

section \<open>The constants and texts of sign.go\<close>

definition signatureManifestArtifact :: string where
  "signatureManifestArtifact = ''artifact''"

definition signatureManifestImage :: string where
  "signatureManifestImage = ''image''"

definition referrersTagSchemaDeleteError :: string where
  "referrersTagSchemaDeleteError = ''failed to delete dangling referrers index''"

definition supportedSignatureManifest :: "string list" where
  "supportedSignatureManifest = [signatureManifestArtifact, signatureManifestImage]"

text \<open>The line that lines 141, 147 and 229 print.\<close>

definition successLine :: "string \<Rightarrow> string" where
  "successLine ref = fmt_Println2 ''Successfully signed'' ref"

text \<open>The warning of line 139 (\<open>fmt.Fprintln\<close> adds the newline).\<close>

definition referrersWarning :: string where
  "referrersWarning =
     ''Warning: Removal of outdated referrers index is not supported by the remote registry. Garbage collection may be required.''
     @ [CHR 0x0A]"

text \<open>The warning of lines 165 and 211, for the tag \<open>t\<close>.\<close>

definition tagWarningHead :: string where
  "tagWarningHead = ''Warning: Always sign the artifact using digest(@sha256:...) rather than a tag(:''"

definition tagWarning :: "string \<Rightarrow> string" where
  "tagWarning t = tagWarningHead @ t
     @ '') because tags are mutable and a tag reference can point to a different artifact than the one signed.''
     @ [CHR 0x0A]"

text \<open>The line of line 208, for the reference and the formatted descriptor.\<close>

definition layoutResolvedLine :: "string \<Rightarrow> string \<Rightarrow> string" where
  "layoutResolvedLine ref desc =
     ''OCI layout reference '' @ ref @ '' resolved to target manifest descriptor: '' @ desc
     @ [CHR 0x0A]"

text \<open>The guidance that line 136 appends to a push failure (the flag stands in backquotes).\<close>

definition artifactManifestHint :: string where
  "artifactManifestHint =
     ''. Possible reason: target registry does not support OCI artifact manifest. Try removing the flag ''
     @ [CHR 0x60] @ ''--signature-manifest artifact'' @ [CHR 0x60]
     @ '' to store signatures using OCI image manifest''"

section \<open>Helpers of the repository that the source file does not hold\<close>

text \<open>
  Modelled from the spec: \<open>slices.Contains\<close> (internal/slices) is not in the source
  file. The spec has the manifest kind "validated against the fixed set", so the
  helper is membership in the slice.
\<close>

definition slices_Contains :: "string list \<Rightarrow> string \<Rightarrow> bool" where
  "slices_Contains xs x = (x \<in> set xs)"

text \<open>
  Modelled from the spec: \<open>localArtifactReference\<close> is not in the source file. The
  spec's local form is the layout directory path, then \<open>@\<close>, then the digest
  (scenario C: \<open>/local/layout@sha256:ef01...\<close>).
\<close>

definition localArtifactReference :: "string \<Rightarrow> string \<Rightarrow> string" where
  "localArtifactReference path ref = path @ ''@'' @ ref"

text \<open>
  Modelled from the spec: \<open>cmd.ParseFlagMap\<close> (internal/cmd) is not in the source file.
  Sections 4.3 and 6 of the spec: a list of \<open>key=value\<close> strings is parsed into a
  mapping, with an error on malformed \<open>key=value\<close> syntax and an error on duplicate
  keys. An entry is malformed when it holds no \<open>=\<close>; its key is what stands before the
  first \<open>=\<close> and its value what stands after it. The spec does not give the texts
  of the two errors; they name the flag.
\<close>

definition flagKey :: "string \<Rightarrow> string" where
  "flagKey pair = takeWhile (\<lambda>c. c \<noteq> CHR ''='') pair"

definition flagValue :: "string \<Rightarrow> string" where
  "flagValue pair = tl (dropWhile (\<lambda>c. c \<noteq> CHR ''='') pair)"

definition malformedEntry :: "string \<Rightarrow> bool" where
  "malformedEntry pair = (CHR ''='' \<notin> set pair)"

definition duplicateKey :: "string list \<Rightarrow> bool" where
  "duplicateKey entries = (\<not> distinct (map flagKey entries))"

definition rejectedEntries :: "string list \<Rightarrow> bool" where
  "rejectedEntries entries = (list_ex malformedEntry entries \<or> duplicateKey entries)"

definition flagMapError :: "string list \<Rightarrow> string \<Rightarrow> error" where
  "flagMapError entries flagName =
     (if list_ex malformedEntry entries
      then GoError (''could not parse flag '' @ flagName) False
      else GoError (''duplicated key in flag '' @ flagName) False)"

definition cmd_ParseFlagMap :: "string list \<Rightarrow> string \<Rightarrow> error + (string \<rightharpoonup> string)" where
  "cmd_ParseFlagMap entries flagName =
     (if rejectedEntries entries then Inl (flagMapError entries flagName)
      else Inr (map_of (map (\<lambda>pair. (flagKey pair, flagValue pair)) entries)))"

text \<open>An environment with that parser in the place of its flag map parser.\<close>

definition specParser :: "('s, 'signer, 'repo) env \<Rightarrow> ('s, 'signer, 'repo) env" where
  "specParser env = env\<lparr>ParseFlagMap := cmd_ParseFlagMap\<rparr>"

text \<open>
  Modelled from the spec: \<open>resolveReference\<close> is not in the source file. Sections 4.1
  and 4.2 of the spec: the raw string is parsed into a remote reference (failure:
  invalid reference format); \<open>Resolve\<close> is called on the repository with the tag or
  digest; a failed lookup fails the resolution, and the cause propagates unchanged
  (section 7); \<open>wasTag\<close> holds when the resolved digest string differs from the literal
  input and the input does not pass digest-format validation; when \<open>wasTag\<close> holds the
  advisory is emitted, which in sign.go is the callback \<open>fn\<close>, called with the parsed
  reference and the resolved descriptor; the result is the reference pinned to the
  resolved digest. The secure flag options only configure the transport.
\<close>

definition resolveReference ::
  "('s, 'signer, 'repo) env \<Rightarrow> 's \<Rightarrow> string \<Rightarrow> 'repo
    \<Rightarrow> (registry_Reference \<Rightarrow> Descriptor \<Rightarrow> 'repo event list)
    \<Rightarrow> (error + registry_Reference) \<times> 'repo event list" where
  "resolveReference env secureOpts reference' sigRepo fn =
     (case ParseReference env reference' of
        Inl err \<Rightarrow> (Inl err, [])
      | Inr ref \<Rightarrow>
          emitting [CallResolve sigRepo (Reference ref)]
           (case Resolve env sigRepo (Reference ref) of
              Inl err \<Rightarrow> (Inl err, [])
            | Inr manifestDesc \<Rightarrow>
                (let wasTag = (Digest manifestDesc \<noteq> Reference ref
                               \<and> \<not> digestValidate env (Reference ref))
                 in (Inr (ref\<lparr>Reference := Digest manifestDesc\<rparr>),
                     if wasTag then fn ref manifestDesc else []))))"

section \<open>The functions of sign.go\<close>

text \<open>Lines 233 to 235.\<close>

definition validateSignatureManifest :: "string \<Rightarrow> bool" where
  "validateSignatureManifest signatureManifest' =
     slices_Contains supportedSignatureManifest signatureManifest'"

text \<open>Lines 151 to 180. The callback of lines 164 to 166 writes the tag warning.\<close>

definition prepareRemoteSigningContent ::
  "('s, 'signer, 'repo) env \<Rightarrow> ('l, 's) signOpts \<Rightarrow> 'repo
    \<Rightarrow> (error + SignOptions \<times> registry_Reference) \<times> 'repo event list" where
  "prepareRemoteSigningContent env opts sigRepo =
     (case GetEnvelopeMediaType env (SignatureFormat (SignerFlagOpts opts)) of
        Inl err \<Rightarrow> (Inl err, [])
      | Inr mediaType \<Rightarrow>
     (case ParseFlagMap env (pluginConfig opts) (PflagPluginConfigName env) of
        Inl err \<Rightarrow> (Inl err, [])
      | Inr pluginConfig' \<Rightarrow>
     (case ParseFlagMap env (userMetadata opts) (PflagUserMetadataName env) of
        Inl err \<Rightarrow> (Inl err, [])
      | Inr userMetadata' \<Rightarrow>
     (case resolveReference env (SecureFlagOpts opts) (reference opts) sigRepo
             (\<lambda>ref manifestDesc. [Stderr (tagWarning (Reference ref))]) of
        (Inl err, tr) \<Rightarrow> (Inl err, tr)
      | (Inr ref, tr) \<Rightarrow>
          (Inr (\<lparr>ArtifactReference = ReferenceString env ref,
                 SignatureMediaType = mediaType,
                 ExpiryDuration = expiry opts,
                 PluginConfig = pluginConfig',
                 UserMetadata = userMetadata'\<rparr>, ref), tr)))))"

text \<open>Lines 120 to 149.\<close>

definition signRemote ::
  "('s, 'signer, 'repo) env \<Rightarrow> ('l, 's) signOpts \<Rightarrow> 'signer \<Rightarrow> bool
    \<Rightarrow> (error + unit) \<times> 'repo event list" where
  "signRemote env cmdOpts signer ociImageManifest =
     emitting [CallGetSignatureRepositoryForSign (reference cmdOpts) ociImageManifest]
     (case getSignatureRepositoryForSign env (SecureFlagOpts cmdOpts) (reference cmdOpts)
             ociImageManifest of
        Inl err \<Rightarrow> (Inl err, [])
      | Inr sigRepo \<Rightarrow>
     (case prepareRemoteSigningContent env cmdOpts sigRepo of
        (Inl err, tr) \<Rightarrow> (Inl err, tr)
      | (Inr (opts, ref), tr) \<Rightarrow>
          emitting (tr @ [CallSign sigRepo opts])
          (case Sign env signer sigRepo opts of
             Inl err \<Rightarrow>
               if AsErrorPushSignatureFailed err then
                 if \<not> ociImageManifest then
                   (Inl (fmt_Errorf (Error err @ artifactManifestHint)), [])
                 else if strings_Contains (Error err) referrersTagSchemaDeleteError then
                   (Inr (), [Stderr referrersWarning,
                             Stdout (successLine (ReferenceString env ref))])
                 else (Inl err, [])
               else (Inl err, [])
           | Inr _ \<Rightarrow> (Inr (), [Stdout (successLine (ReferenceString env ref))]))))"

text \<open>
  Lines 182 to 231. Line 213 overwrites \<open>layout.reference\<close> with the resolved digest,
  and line 225 overwrites \<open>targetDesc\<close> with the descriptor that \<open>notation.Sign\<close>
  returns; line 229 prints the digest of that one.
\<close>

definition signLocal ::
  "('s, 'signer, 'repo) env \<Rightarrow> ('l, 's) signOpts \<Rightarrow> 'signer \<Rightarrow> bool
    \<Rightarrow> (error + unit) \<times> 'repo event list" where
  "signLocal env cmdOpts signer ociImageManifest =
     (case GetEnvelopeMediaType env (SignatureFormat (SignerFlagOpts cmdOpts)) of
        Inl err \<Rightarrow> (Inl err, [])
      | Inr mediaType \<Rightarrow>
     (case ParseFlagMap env (pluginConfig cmdOpts) (PflagPluginConfigName env) of
        Inl err \<Rightarrow> (Inl err, [])
      | Inr pluginConfig' \<Rightarrow>
     (case ParseFlagMap env (userMetadata cmdOpts) (PflagUserMetadataName env) of
        Inl err \<Rightarrow> (Inl err, [])
      | Inr userMetadata' \<Rightarrow>
     (case parseOCILayoutReference env (reference cmdOpts) of
        Inl err \<Rightarrow> (Inl err, [])
      | Inr (layout_path, layout_reference) \<Rightarrow>
     emitting [CallOciLayoutRepositoryForSign layout_path ociImageManifest]
     (case ociLayoutRepositoryForSign env layout_path ociImageManifest of
        Inl err \<Rightarrow> (Inl err, [])
      | Inr sigRepo \<Rightarrow>
     emitting [CallResolve sigRepo layout_reference]
     (case Resolve env sigRepo layout_reference of
        Inl err \<Rightarrow>
          (Inl (fmt_Errorf (''failed to resolve OCI layout reference: '' @ Error err)), [])
      | Inr targetDesc \<Rightarrow>
     emitting
       ([Stdout (layoutResolvedLine layout_reference (fmtDescriptor env targetDesc))]
        @ (if \<not> digestValidate env layout_reference
           then [Stderr (tagWarning layout_reference)] else []))
     (let layout_reference' = Digest targetDesc;
          signOpts = \<lparr>ArtifactReference = localArtifactReference layout_path layout_reference',
                      SignatureMediaType = mediaType,
                      ExpiryDuration = expiry cmdOpts,
                      PluginConfig = pluginConfig',
                      UserMetadata = userMetadata'\<rparr>
      in emitting [CallSign sigRepo signOpts]
         (case Sign env signer sigRepo signOpts of
            Inl err \<Rightarrow> (Inl err, [])
          | Inr targetDesc' \<Rightarrow>
              (Inr (), [Stdout (successLine (layout_path @ ''@'' @ Digest targetDesc'))])))))))))"

text \<open>
  Lines 104 to 118. Line 106 puts the logger level into the context, which is not
  modelled; the first call that leaves the command is \<open>cmd.GetSigner\<close> of line 109,
  which loads the signing key that \<open>notation key\<close> configured (line 52) or the plugin.
\<close>

definition runSign ::
  "('s, 'signer, 'repo) env \<Rightarrow> ('l, 's) signOpts \<Rightarrow> (error + unit) \<times> 'repo event list" where
  "runSign env cmdOpts =
     emitting [CallGetSigner (SignerFlagOpts cmdOpts)]
     (case GetSigner env (SignerFlagOpts cmdOpts) of
        Inl err \<Rightarrow> (Inl err, [])
      | Inr signer \<Rightarrow>
          (let ociImageManifest = (signatureManifest cmdOpts = signatureManifestImage)
           in if localContent cmdOpts
              then signLocal env cmdOpts signer ociImageManifest
              else signRemote env cmdOpts signer ociImageManifest))"

text \<open>
  Lines 78 to 84: the \<open>Args\<close> function of the command. It stores the first argument
  in the options, so the options after it are part of what it returns.
\<close>

definition signCommand_Args ::
  "('l, 's) signOpts \<Rightarrow> string list \<Rightarrow> error + ('l, 's) signOpts" where
  "signCommand_Args opts args =
     (if length args = 0 then Inl (errors_New ''missing reference'')
      else Inr (opts\<lparr>reference := args ! 0\<rparr>))"

text \<open>Lines 85 to 91: the \<open>RunE\<close> function of the command.\<close>

definition signCommand_RunE ::
  "('s, 'signer, 'repo) env \<Rightarrow> ('l, 's) signOpts \<Rightarrow> string list
    \<Rightarrow> (error + unit) \<times> 'repo event list" where
  "signCommand_RunE env opts args =
     (if \<not> validateSignatureManifest (signatureManifest opts) then
        (Inl (fmt_Errorf (''signature manifest must be one of the following ''
                @ fmt_v_strings supportedSignatureManifest
                @ '' but got '' @ signatureManifest opts)), [])
      else runSign env opts)"

text \<open>
  An invocation of the command that \<open>signCommand\<close> builds, with the flags already
  parsed into the options: cobra validates the positional arguments with \<open>Args\<close> and
  calls \<open>RunE\<close> only when \<open>Args\<close> returned no error.
\<close>

definition execute ::
  "('s, 'signer, 'repo) env \<Rightarrow> ('l, 's) signOpts \<Rightarrow> string list
    \<Rightarrow> (error + unit) \<times> 'repo event list" where
  "execute env opts args =
     (case signCommand_Args opts args of
        Inl err \<Rightarrow> (Inl err, [])
      | Inr opts' \<Rightarrow> signCommand_RunE env opts' args)"

section \<open>Reading a run\<close>

text \<open>
  The lines a user sees are told apart by how they start: the success line, a
  warning on standard error, and among the warnings the one about mutable tags.
\<close>

definition isSuccessLine :: "'repo event \<Rightarrow> bool" where
  "isSuccessLine ev =
     (case ev of Stdout line \<Rightarrow> strings_HasPrefix line ''Successfully signed '' | _ \<Rightarrow> False)"

definition isWarning :: "'repo event \<Rightarrow> bool" where
  "isWarning ev =
     (case ev of Stderr line \<Rightarrow> strings_HasPrefix line ''Warning: '' | _ \<Rightarrow> False)"

definition isTagWarning :: "'repo event \<Rightarrow> bool" where
  "isTagWarning ev =
     (case ev of Stderr line \<Rightarrow> strings_HasPrefix line tagWarningHead | _ \<Rightarrow> False)"

text \<open>
  The calls that set a run up: loading the signer and building the client of the
  remote signature repository.
\<close>

definition isSetupCall :: "'repo event \<Rightarrow> bool" where
  "isSetupCall ev =
     (case ev of CallGetSigner flags \<Rightarrow> True
               | CallGetSignatureRepositoryForSign ref oci \<Rightarrow> True
               | _ \<Rightarrow> False)"






section \<open>An example registry and layout\<close>

text \<open>
  A concrete environment to run the command in: one artifact with the digest
  \<open>sha256:ef01\<close>, tagged \<open>v1\<close>, in the repository \<open>registry.example.com/repo\<close> and in
  the layout \<open>/local/layout\<close>. A repository is named by its location. The flag map
  parser is the one modelled from the spec.
\<close>

definition exampleDescriptor :: Descriptor where
  "exampleDescriptor =
     \<lparr>MediaType = ''application/vnd.oci.image.manifest.v1+json'',
      Digest = ''sha256:ef01'', Size = 528\<rparr>"

definition exampleEnv :: "(unit, unit, string) env" where
  "exampleEnv =
     \<lparr>GetSigner = (\<lambda>flags. Inr ()),
      getSignatureRepositoryForSign = (\<lambda>secure raw oci. Inr ''registry.example.com/repo''),
      GetEnvelopeMediaType =
        (\<lambda>format. if format = ''jws'' then Inr ''application/jose+json''
                  else if format = ''cose'' then Inr ''application/cose''
                  else Inl (GoError ''signature format not supported'' False)),
      ParseFlagMap = cmd_ParseFlagMap,
      PflagPluginConfigName = ''plugin-config'',
      PflagUserMetadataName = ''user-metadata'',
      parseOCILayoutReference =
        (\<lambda>raw. if raw = ''/local/layout:v1'' then Inr (''/local/layout'', ''v1'')
               else if raw = ''/local/layout@sha256:ef01''
               then Inr (''/local/layout'', ''sha256:ef01'')
               else Inl (GoError ''invalid reference'' False)),
      ociLayoutRepositoryForSign = (\<lambda>path oci. Inr path),
      Resolve =
        (\<lambda>repo ref. if ref = ''v1'' \<or> ref = ''sha256:ef01'' then Inr exampleDescriptor
                    else Inl (GoError ''not found'' False)),
      Sign = (\<lambda>signer repo opts. Inr exampleDescriptor),
      digestValidate = (\<lambda>d. strings_HasPrefix d ''sha256:''),
      ParseReference =
        (\<lambda>raw. if raw = ''registry.example.com/repo:v1''
               then Inr \<lparr>Registry = ''registry.example.com'', Repository = ''repo'',
                         Reference = ''v1''\<rparr>
               else if raw = ''registry.example.com/repo@sha256:ef01''
               then Inr \<lparr>Registry = ''registry.example.com'', Repository = ''repo'',
                         Reference = ''sha256:ef01''\<rparr>
               else Inl (GoError ''invalid reference'' False)),
      ReferenceString =
        (\<lambda>ref. Registry ref @ ''/'' @ Repository ref
                @ (if strings_HasPrefix (Reference ref) ''sha256:'' then ''@'' else '':'')
                @ Reference ref),
      fmtDescriptor = (\<lambda>desc. ''{MediaType:'' @ MediaType desc @ '' Digest:'' @ Digest desc @ ''}'')\<rparr>"

text \<open>The options of \<open>notation sign\<close> with no flag given.\<close>

definition exampleOpts :: "(unit, unit) signOpts" where
  "exampleOpts =
     \<lparr>LoggingFlagOpts = (), SignerFlagOpts = \<lparr>SignatureFormat = ''jws''\<rparr>,
      SecureFlagOpts = (), expiry = 0, pluginConfig = [], userMetadata = [],
      reference = [], signatureManifest = ''image'', localContent = False\<rparr>"

text \<open>The options of \<open>notation sign --local-content\<close> for a reference in a layout.\<close>

definition exampleLocalOpts :: "string \<Rightarrow> (unit, unit) signOpts" where
  "exampleLocalOpts raw = exampleOpts\<lparr>reference := raw, localContent := True\<rparr>"

text \<open>The options with a plugin configuration entry that has no \<open>=\<close>.\<close>

definition malformedOpts :: "(unit, unit) signOpts" where
  "malformedOpts = exampleOpts\<lparr>pluginConfig := [''novalue'']\<rparr>"

text \<open>The options with a plugin configuration that gives the key \<open>k\<close> twice.\<close>

definition duplicateOpts :: "(unit, unit) signOpts" where
  "duplicateOpts = exampleOpts\<lparr>pluginConfig := [''k=1'', ''k=2'']\<rparr>"

text \<open>The options with an envelope format that the example does not know.\<close>

definition unknownFormatOpts :: "(unit, unit) signOpts" where
  "unknownFormatOpts = exampleOpts\<lparr>SignerFlagOpts := \<lparr>SignatureFormat = ''pgp''\<rparr>\<rparr>"



text \<open>
  A push failure as a registry without referrers-index deletion produces it, and the
  signer that runs into it.
\<close>

definition staleIndexError :: error where
  "staleIndexError =
     GoError ''push failed: failed to delete dangling referrers index: 405'' True"

definition staleIndexEnv :: "(unit, unit, string) env" where
  "staleIndexEnv = exampleEnv\<lparr>Sign := (\<lambda>signer repo opts. Inl staleIndexError)\<rparr>"

text \<open>An environment in which no signing key is configured.\<close>

definition noKeyError :: error where
  "noKeyError = GoError ''signing key not found'' False"

definition noKeyEnv :: "(unit, unit, string) env" where
  "noKeyEnv = exampleEnv\<lparr>GetSigner := (\<lambda>flags. Inl noKeyError)\<rparr>"

text \<open>The signing request of the example, for the artifact reference \<open>ref\<close>.\<close>

definition exampleRequest :: "string \<Rightarrow> SignOptions" where
  "exampleRequest ref =
     \<lparr>ArtifactReference = ref, SignatureMediaType = ''application/jose+json'',
      ExpiryDuration = 0, PluginConfig = Map.empty, UserMetadata = Map.empty\<rparr>"

section \<open>Auxiliary facts\<close>

lemma emitting_pair [simp]: "emitting es (a, tr) = (a, es @ tr)"
  by (simp add: emitting_def)

lemma HasPrefix_append [simp]: "strings_HasPrefix (p @ s) p"
  by (induction p) auto

text \<open>\<open>strings_Contains\<close> is the substring relation.\<close>

lemma HasPrefix_iff: "strings_HasPrefix s p \<longleftrightarrow> (\<exists>rest. s = p @ rest)"
  by (induction s p rule: strings_HasPrefix.induct) auto

lemma Contains_iff: "strings_Contains s sub \<longleftrightarrow> (\<exists>before after. s = before @ sub @ after)"
proof (induction s)
  case Nil
  show ?case by (auto simp: HasPrefix_iff)
next
  case (Cons c cs)
  show ?case
  proof
    assume "strings_Contains (c # cs) sub"
    then consider "strings_HasPrefix (c # cs) sub" | "strings_Contains cs sub" by auto
    then show "\<exists>before after. c # cs = before @ sub @ after"
    proof cases
      case 1
      then obtain rest where "c # cs = sub @ rest" by (auto simp: HasPrefix_iff)
      then have "c # cs = [] @ sub @ rest" by simp
      then show ?thesis by blast
    next
      case 2
      with Cons.IH obtain before after where "cs = before @ sub @ after" by blast
      then have "c # cs = (c # before) @ sub @ after" by simp
      then show ?thesis by blast
    qed
  next
    assume "\<exists>before after. c # cs = before @ sub @ after"
    then obtain before after where split: "c # cs = before @ sub @ after" by blast
    show "strings_Contains (c # cs) sub"
    proof (cases before)
      case Nil
      with split have "strings_HasPrefix (c # cs) sub" by (auto simp: HasPrefix_iff)
      then show ?thesis by simp
    next
      case (Cons b bs)
      with split have "cs = bs @ sub @ after" by simp
      with Cons.IH have "strings_Contains cs sub" by blast
      then show ?thesis by simp
    qed
  qed
qed

lemma validate_iff: "validateSignatureManifest s \<longleftrightarrow> s = ''image'' \<or> s = ''artifact''"
  by (auto simp: validateSignatureManifest_def slices_Contains_def supportedSignatureManifest_def
      signatureManifestArtifact_def signatureManifestImage_def)

lemma isSuccessLine_simps [simp]:
  "isSuccessLine (Stdout (successLine x))"
  "\<not> isSuccessLine (Stdout (layoutResolvedLine y z))"
  "\<not> isSuccessLine (Stderr s)"
  "\<not> isSuccessLine (CallGetSigner f)"
  "\<not> isSuccessLine (CallGetSignatureRepositoryForSign a b)"
  "\<not> isSuccessLine (CallOciLayoutRepositoryForSign a b)"
  "\<not> isSuccessLine (CallResolve r a)"
  "\<not> isSuccessLine (CallSign r so)"
  by (simp_all add: isSuccessLine_def successLine_def fmt_Println2_def layoutResolvedLine_def)

lemma isWarning_simps [simp]:
  "isWarning (Stderr referrersWarning)"
  "isWarning (Stderr (tagWarning t))"
  "\<not> isWarning (Stdout s)"
  "\<not> isWarning (CallGetSigner f)"
  "\<not> isWarning (CallGetSignatureRepositoryForSign a b)"
  "\<not> isWarning (CallOciLayoutRepositoryForSign a b)"
  "\<not> isWarning (CallResolve r a)"
  "\<not> isWarning (CallSign r so)"
  by (simp_all add: isWarning_def referrersWarning_def tagWarning_def tagWarningHead_def)

lemma isTagWarning_simps [simp]:
  "\<not> isTagWarning (Stderr referrersWarning)"
  "isTagWarning (Stderr (tagWarning t))"
  "\<not> isTagWarning (Stdout s)"
  "\<not> isTagWarning (CallGetSigner f)"
  "\<not> isTagWarning (CallGetSignatureRepositoryForSign a b)"
  "\<not> isTagWarning (CallOciLayoutRepositoryForSign a b)"
  "\<not> isTagWarning (CallResolve r a)"
  "\<not> isTagWarning (CallSign r so)"
  by (simp_all add: isTagWarning_def referrersWarning_def tagWarning_def tagWarningHead_def)

lemma warnings_differ: "tagWarning t \<noteq> referrersWarning"
  by (simp add: tagWarning_def tagWarningHead_def referrersWarning_def)




subsection \<open>The example environment, evaluated\<close>

lemma example_fields [simp]:
  "GetSigner exampleEnv flags = Inr ()"
  "getSignatureRepositoryForSign exampleEnv secure raw oci = Inr ''registry.example.com/repo''"
  "GetEnvelopeMediaType exampleEnv ''jws'' = Inr ''application/jose+json''"
  "ParseFlagMap exampleEnv [] name = Inr Map.empty"
  "ParseFlagMap exampleEnv [''novalue''] name = Inl (GoError (''could not parse flag '' @ name) False)"
  "PflagPluginConfigName exampleEnv = ''plugin-config''"
  "PflagUserMetadataName exampleEnv = ''user-metadata''"
  "parseOCILayoutReference exampleEnv ''/local/layout:v1'' = Inr (''/local/layout'', ''v1'')"
  "parseOCILayoutReference exampleEnv ''/local/layout@sha256:ef01''
     = Inr (''/local/layout'', ''sha256:ef01'')"
  "ociLayoutRepositoryForSign exampleEnv path oci = Inr path"
  "Resolve exampleEnv repo ''v1'' = Inr exampleDescriptor"
  "Resolve exampleEnv repo ''sha256:ef01'' = Inr exampleDescriptor"
  "Sign exampleEnv signer repo so = Inr exampleDescriptor"
  "digestValidate exampleEnv ''sha256:ef01''"
  "\<not> digestValidate exampleEnv ''v1''"
  "ParseReference exampleEnv ''registry.example.com/repo:v1''
     = Inr \<lparr>Registry = ''registry.example.com'', Repository = ''repo'', Reference = ''v1''\<rparr>"
  "ParseReference exampleEnv ''registry.example.com/repo@sha256:ef01''
     = Inr \<lparr>Registry = ''registry.example.com'', Repository = ''repo'',
            Reference = ''sha256:ef01''\<rparr>"
  "ReferenceString exampleEnv
     \<lparr>Registry = ''registry.example.com'', Repository = ''repo'', Reference = ''sha256:ef01''\<rparr>
     = ''registry.example.com/repo@sha256:ef01''"
  "fmtDescriptor exampleEnv exampleDescriptor
     = ''{MediaType:application/vnd.oci.image.manifest.v1+json Digest:sha256:ef01}''"
  "Digest exampleDescriptor = ''sha256:ef01''"
  by (simp_all add: exampleEnv_def cmd_ParseFlagMap_def rejectedEntries_def duplicateKey_def
      malformedEntry_def flagMapError_def exampleDescriptor_def)

lemma example_opts [simp]:
  "SignerFlagOpts exampleOpts = \<lparr>SignatureFormat = ''jws''\<rparr>"
  "SecureFlagOpts exampleOpts = ()"
  "expiry exampleOpts = 0"
  "pluginConfig exampleOpts = []"
  "userMetadata exampleOpts = []"
  "reference exampleOpts = []"
  "signatureManifest exampleOpts = ''image''"
  "\<not> localContent exampleOpts"
  by (simp_all add: exampleOpts_def)

lemma example_local_opts [simp]:
  "SignerFlagOpts (exampleLocalOpts raw) = \<lparr>SignatureFormat = ''jws''\<rparr>"
  "SecureFlagOpts (exampleLocalOpts raw) = ()"
  "expiry (exampleLocalOpts raw) = 0"
  "pluginConfig (exampleLocalOpts raw) = []"
  "userMetadata (exampleLocalOpts raw) = []"
  "reference (exampleLocalOpts raw) = raw"
  "signatureManifest (exampleLocalOpts raw) = ''image''"
  "localContent (exampleLocalOpts raw)"
  by (simp_all add: exampleLocalOpts_def)

lemma malformed_opts [simp]:
  "SignerFlagOpts malformedOpts = \<lparr>SignatureFormat = ''jws''\<rparr>"
  "SecureFlagOpts malformedOpts = ()"
  "pluginConfig malformedOpts = [''novalue'']"
  "userMetadata malformedOpts = []"
  "signatureManifest malformedOpts = ''image''"
  "\<not> localContent malformedOpts"
  by (simp_all add: malformedOpts_def)

lemma stale_index_error [simp]:
  "AsErrorPushSignatureFailed staleIndexError"
  "strings_Contains (Error staleIndexError) referrersTagSchemaDeleteError"
  by (simp_all add: staleIndexError_def referrersTagSchemaDeleteError_def)

lemma example_prepare_tag:
  "prepareRemoteSigningContent exampleEnv
       (exampleOpts\<lparr>reference := ''registry.example.com/repo:v1'', signatureManifest := kind\<rparr>)
       ''registry.example.com/repo''
     = (Inr (exampleRequest ''registry.example.com/repo@sha256:ef01'',
             \<lparr>Registry = ''registry.example.com'', Repository = ''repo'',
               Reference = ''sha256:ef01''\<rparr>),
        [CallResolve ''registry.example.com/repo'' ''v1'', Stderr (tagWarning ''v1'')])"
  by (simp add: prepareRemoteSigningContent_def resolveReference_def exampleRequest_def)

lemma stale_fields:
  "GetSigner staleIndexEnv = GetSigner exampleEnv"
  "getSignatureRepositoryForSign staleIndexEnv = getSignatureRepositoryForSign exampleEnv"
  "GetEnvelopeMediaType staleIndexEnv = GetEnvelopeMediaType exampleEnv"
  "ParseFlagMap staleIndexEnv = ParseFlagMap exampleEnv"
  "PflagPluginConfigName staleIndexEnv = PflagPluginConfigName exampleEnv"
  "PflagUserMetadataName staleIndexEnv = PflagUserMetadataName exampleEnv"
  "parseOCILayoutReference staleIndexEnv = parseOCILayoutReference exampleEnv"
  "ociLayoutRepositoryForSign staleIndexEnv = ociLayoutRepositoryForSign exampleEnv"
  "Resolve staleIndexEnv = Resolve exampleEnv"
  "digestValidate staleIndexEnv = digestValidate exampleEnv"
  "ParseReference staleIndexEnv = ParseReference exampleEnv"
  "ReferenceString staleIndexEnv = ReferenceString exampleEnv"
  "fmtDescriptor staleIndexEnv = fmtDescriptor exampleEnv"
  "Sign staleIndexEnv signer repo so = Inl staleIndexError"
  by (simp_all add: staleIndexEnv_def)

lemma stale_prepare:
  "prepareRemoteSigningContent staleIndexEnv opts repo
     = prepareRemoteSigningContent exampleEnv opts repo"
  unfolding prepareRemoteSigningContent_def resolveReference_def stale_fields
  by (rule refl)

subsection \<open>The shape of a run\<close>






text \<open>A local run whose steps up to the resolution succeed, written out.\<close>

lemma signLocal_past_resolution:
  assumes "GetEnvelopeMediaType env (SignatureFormat (SignerFlagOpts cmdOpts)) = Inr mediaType"
      and "ParseFlagMap env (pluginConfig cmdOpts) (PflagPluginConfigName env) = Inr pc"
      and "ParseFlagMap env (userMetadata cmdOpts) (PflagUserMetadataName env) = Inr um"
      and "parseOCILayoutReference env (reference cmdOpts) = Inr (path, ref)"
      and "ociLayoutRepositoryForSign env path oci = Inr repo"
      and "Resolve env repo ref = Inr targetDesc"
      and "so = \<lparr>ArtifactReference = localArtifactReference path (Digest targetDesc),
                  SignatureMediaType = mediaType, ExpiryDuration = expiry cmdOpts,
                  PluginConfig = pc, UserMetadata = um\<rparr>"
  shows "signLocal env cmdOpts signer oci =
           (case Sign env signer repo so of Inl err \<Rightarrow> Inl err | Inr signedDesc \<Rightarrow> Inr (),
            [CallOciLayoutRepositoryForSign path oci, CallResolve repo ref,
             Stdout (layoutResolvedLine ref (fmtDescriptor env targetDesc))]
            @ (if \<not> digestValidate env ref then [Stderr (tagWarning ref)] else [])
            @ CallSign repo so
            # (case Sign env signer repo so of Inl err \<Rightarrow> []
               | Inr signedDesc \<Rightarrow> [Stdout (successLine (path @ ''@'' @ Digest signedDesc))]))"
  using assms by (simp add: signLocal_def Let_def split: sum.splits)

text \<open>A local run that calls \<open>notation.Sign\<close> has passed every step before it.\<close>

lemma signLocal_sign_called:
  assumes "signLocal env cmdOpts signer oci = (res, tr)"
      and "CallSign repo so \<in> set tr"
  shows "\<exists>mediaType pc um path ref targetDesc.
           GetEnvelopeMediaType env (SignatureFormat (SignerFlagOpts cmdOpts)) = Inr mediaType
         \<and> ParseFlagMap env (pluginConfig cmdOpts) (PflagPluginConfigName env) = Inr pc
         \<and> ParseFlagMap env (userMetadata cmdOpts) (PflagUserMetadataName env) = Inr um
         \<and> parseOCILayoutReference env (reference cmdOpts) = Inr (path, ref)
         \<and> ociLayoutRepositoryForSign env path oci = Inr repo
         \<and> Resolve env repo ref = Inr targetDesc
         \<and> so = \<lparr>ArtifactReference = localArtifactReference path (Digest targetDesc),
                  SignatureMediaType = mediaType, ExpiryDuration = expiry cmdOpts,
                  PluginConfig = pc, UserMetadata = um\<rparr>"
  using assms unfolding signLocal_def
  by (auto simp: Let_def split: sum.splits prod.splits if_splits)

lemma signLocal_success_signed:
  assumes "signLocal env cmdOpts signer oci = (Inr u, tr)"
  shows "\<exists>repo so. CallSign repo so \<in> set tr"
  using assms unfolding signLocal_def
  by (auto simp: Let_def split: sum.splits prod.splits if_splits)


text \<open>The remote preparation whose steps succeed, written out.\<close>

lemma prepare_past_resolution:
  assumes "GetEnvelopeMediaType env (SignatureFormat (SignerFlagOpts opts)) = Inr mediaType"
      and "ParseFlagMap env (pluginConfig opts) (PflagPluginConfigName env) = Inr pc"
      and "ParseFlagMap env (userMetadata opts) (PflagUserMetadataName env) = Inr um"
      and "ParseReference env (reference opts) = Inr parsed"
      and "Resolve env sigRepo (Reference parsed) = Inr targetDesc"
  shows "prepareRemoteSigningContent env opts sigRepo =
           (Inr (\<lparr>ArtifactReference =
                    ReferenceString env (parsed\<lparr>Reference := Digest targetDesc\<rparr>),
                  SignatureMediaType = mediaType, ExpiryDuration = expiry opts,
                  PluginConfig = pc, UserMetadata = um\<rparr>,
                 parsed\<lparr>Reference := Digest targetDesc\<rparr>),
            CallResolve sigRepo (Reference parsed)
            # (if Digest targetDesc \<noteq> Reference parsed
                  \<and> \<not> digestValidate env (Reference parsed)
               then [Stderr (tagWarning (Reference parsed))] else []))"
  using assms by (simp add: prepareRemoteSigningContent_def resolveReference_def Let_def)



lemma stale_local_run:
  "signLocal staleIndexEnv (exampleLocalOpts ''/local/layout:v1'') () True =
     (Inl staleIndexError,
      [CallOciLayoutRepositoryForSign ''/local/layout'' True,
       CallResolve ''/local/layout'' ''v1'',
       Stdout (layoutResolvedLine ''v1''
                 ''{MediaType:application/vnd.oci.image.manifest.v1+json Digest:sha256:ef01}''),
       Stderr (tagWarning ''v1''),
       CallSign ''/local/layout'' (exampleRequest ''/local/layout@sha256:ef01'')])"
  by (simp add: signLocal_def exampleRequest_def localArtifactReference_def stale_fields)


subsection \<open>Runs that reach the signer, and runs that stop on a format error\<close>

lemma signLocal_sign_pinned:
  assumes "signLocal env cmdOpts signer oci = (res, tr)"
      and called: "CallSign repo so \<in> set tr"
  shows "\<exists>path ref targetDesc pre post.
               parseOCILayoutReference env (reference cmdOpts) = Inr (path, ref)
             \<and> ociLayoutRepositoryForSign env path oci = Inr repo
             \<and> Resolve env repo ref = Inr targetDesc
             \<and> ArtifactReference so = localArtifactReference path (Digest targetDesc)
             \<and> tr = pre @ CallSign repo so # post
             \<and> CallResolve repo ref \<in> set pre
             \<and> (Digest targetDesc \<noteq> ref \<longrightarrow>
                   ArtifactReference so \<noteq> localArtifactReference path ref)"
proof -
  from signLocal_sign_called [OF assms]
  obtain mediaType pc um path ref targetDesc where
    steps: "GetEnvelopeMediaType env (SignatureFormat (SignerFlagOpts cmdOpts)) = Inr mediaType"
      "ParseFlagMap env (pluginConfig cmdOpts) (PflagPluginConfigName env) = Inr pc"
      "ParseFlagMap env (userMetadata cmdOpts) (PflagUserMetadataName env) = Inr um"
      "parseOCILayoutReference env (reference cmdOpts) = Inr (path, ref)"
      "ociLayoutRepositoryForSign env path oci = Inr repo"
      "Resolve env repo ref = Inr targetDesc"
    and so: "so = \<lparr>ArtifactReference = localArtifactReference path (Digest targetDesc),
                  SignatureMediaType = mediaType, ExpiryDuration = expiry cmdOpts,
                  PluginConfig = pc, UserMetadata = um\<rparr>"
    by blast
  let ?pre = "[CallOciLayoutRepositoryForSign path oci, CallResolve repo ref,
             Stdout (layoutResolvedLine ref (fmtDescriptor env targetDesc))]
            @ (if \<not> digestValidate env ref then [Stderr (tagWarning ref)] else [])"
  let ?post = "case Sign env signer repo so of Inl err \<Rightarrow> []
               | Inr signedDesc \<Rightarrow> [Stdout (successLine (path @ ''@'' @ Digest signedDesc))]"
  from signLocal_past_resolution [OF steps so, of signer] assms(1)
  have tr: "tr = ?pre @ CallSign repo so # ?post" by simp
  have pinned: "ArtifactReference so = localArtifactReference path (Digest targetDesc)"
    by (simp add: so)
  have "Digest targetDesc \<noteq> ref \<longrightarrow> ArtifactReference so \<noteq> localArtifactReference path ref"
    by (simp add: so localArtifactReference_def)
  moreover have "CallResolve repo ref \<in> set ?pre" by simp
  ultimately show ?thesis
    using steps pinned tr by blast
qed





lemma spec_parser_fields [simp]:
  "GetSigner (specParser env) = GetSigner env"
  "getSignatureRepositoryForSign (specParser env) = getSignatureRepositoryForSign env"
  "GetEnvelopeMediaType (specParser env) = GetEnvelopeMediaType env"
  "ParseFlagMap (specParser env) = cmd_ParseFlagMap"
  "PflagPluginConfigName (specParser env) = PflagPluginConfigName env"
  "PflagUserMetadataName (specParser env) = PflagUserMetadataName env"
  "parseOCILayoutReference (specParser env) = parseOCILayoutReference env"
  "ociLayoutRepositoryForSign (specParser env) = ociLayoutRepositoryForSign env"
  "Resolve (specParser env) = Resolve env"
  "Sign (specParser env) = Sign env"
  "digestValidate (specParser env) = digestValidate env"
  "ParseReference (specParser env) = ParseReference env"
  "ReferenceString (specParser env) = ReferenceString env"
  "fmtDescriptor (specParser env) = fmtDescriptor env"
  by (simp_all add: specParser_def)

lemma spec_parser_example [simp]: "specParser exampleEnv = exampleEnv"
  by (simp add: specParser_def exampleEnv_def)

lemma isl_cmd_ParseFlagMap [simp]:
  "isl (cmd_ParseFlagMap entries name) = rejectedEntries entries"
  by (simp add: cmd_ParseFlagMap_def)

lemma signLocal_format_error:
  assumes "isl (GetEnvelopeMediaType env (SignatureFormat (SignerFlagOpts cmdOpts)))
         \<or> isl (ParseFlagMap env (pluginConfig cmdOpts) (PflagPluginConfigName env))
         \<or> isl (ParseFlagMap env (userMetadata cmdOpts) (PflagUserMetadataName env))
         \<or> isl (parseOCILayoutReference env (reference cmdOpts))"
  shows "isl (fst (signLocal env cmdOpts signer oci)) \<and> snd (signLocal env cmdOpts signer oci) = []"
  using assms unfolding signLocal_def
  by (auto split: sum.splits)

lemma prepare_format_error:
  assumes "isl (GetEnvelopeMediaType env (SignatureFormat (SignerFlagOpts opts)))
         \<or> isl (ParseFlagMap env (pluginConfig opts) (PflagPluginConfigName env))
         \<or> isl (ParseFlagMap env (userMetadata opts) (PflagUserMetadataName env))
         \<or> isl (ParseReference env (reference opts))"
  shows "isl (fst (prepareRemoteSigningContent env opts sigRepo))
       \<and> snd (prepareRemoteSigningContent env opts sigRepo) = []"
  using assms unfolding prepareRemoteSigningContent_def resolveReference_def
  by (auto split: sum.splits)

lemma signRemote_format_error:
  assumes "isl (GetEnvelopeMediaType env (SignatureFormat (SignerFlagOpts cmdOpts)))
         \<or> isl (ParseFlagMap env (pluginConfig cmdOpts) (PflagPluginConfigName env))
         \<or> isl (ParseFlagMap env (userMetadata cmdOpts) (PflagUserMetadataName env))
         \<or> isl (ParseReference env (reference cmdOpts))"
  shows "isl (fst (signRemote env cmdOpts signer oci))
       \<and> snd (signRemote env cmdOpts signer oci)
           = [CallGetSignatureRepositoryForSign (reference cmdOpts) oci]"
proof (cases "getSignatureRepositoryForSign env (SecureFlagOpts cmdOpts) (reference cmdOpts) oci")
  case (Inl err)
  then show ?thesis by (simp add: signRemote_def)
next
  case (Inr sigRepo)
  obtain r t where p: "prepareRemoteSigningContent env cmdOpts sigRepo = (r, t)"
    by (cases "prepareRemoteSigningContent env cmdOpts sigRepo")
  with prepare_format_error [OF assms, of sigRepo] have "isl r" and "t = []" by simp_all
  with Inr p show ?thesis by (auto simp: signRemote_def isl_def)
qed

lemma runSign_format_error:
  assumes "isl (GetEnvelopeMediaType env (SignatureFormat (SignerFlagOpts cmdOpts)))
         \<or> isl (ParseFlagMap env (pluginConfig cmdOpts) (PflagPluginConfigName env))
         \<or> isl (ParseFlagMap env (userMetadata cmdOpts) (PflagUserMetadataName env))
         \<or> (if localContent cmdOpts then isl (parseOCILayoutReference env (reference cmdOpts))
             else isl (ParseReference env (reference cmdOpts)))"
  shows "isl (fst (runSign env cmdOpts)) \<and> list_all isSetupCall (snd (runSign env cmdOpts))"
proof (cases "GetSigner env (SignerFlagOpts cmdOpts)")
  case (Inl err)
  then show ?thesis by (simp add: runSign_def isSetupCall_def)
next
  case (Inr signer)
  show ?thesis
  proof (cases "localContent cmdOpts")
    case True
    with assms signLocal_format_error
      [of env cmdOpts signer "signatureManifest cmdOpts = signatureManifestImage"]
    have "isl (fst (signLocal env cmdOpts signer
                 (signatureManifest cmdOpts = signatureManifestImage)))
        \<and> snd (signLocal env cmdOpts signer
                 (signatureManifest cmdOpts = signatureManifestImage)) = []"
      by simp
    with Inr True show ?thesis
      by (simp add: runSign_def emitting_def isSetupCall_def)
  next
    case False
    with assms signRemote_format_error
      [of env cmdOpts signer "signatureManifest cmdOpts = signatureManifestImage"]
    have "isl (fst (signRemote env cmdOpts signer
                 (signatureManifest cmdOpts = signatureManifestImage)))
        \<and> snd (signRemote env cmdOpts signer
                 (signatureManifest cmdOpts = signatureManifestImage))
            = [CallGetSignatureRepositoryForSign (reference cmdOpts)
                 (signatureManifest cmdOpts = signatureManifestImage)]"
      by simp
    with Inr False show ?thesis
      by (simp add: runSign_def emitting_def isSetupCall_def)
  qed
qed

lemma runSign_flag_map_error:
  assumes "GetSigner env (SignerFlagOpts cmdOpts) = Inr signer"
      and "localContent cmdOpts
           \<or> getSignatureRepositoryForSign env (SecureFlagOpts cmdOpts) (reference cmdOpts)
                (signatureManifest cmdOpts = signatureManifestImage) = Inr sigRepo"
      and "GetEnvelopeMediaType env (SignatureFormat (SignerFlagOpts cmdOpts)) = Inr mediaType"
      and "ParseFlagMap env (pluginConfig cmdOpts) (PflagPluginConfigName env) = Inl err
         \<or> (ParseFlagMap env (pluginConfig cmdOpts) (PflagPluginConfigName env) = Inr pc
            \<and> ParseFlagMap env (userMetadata cmdOpts) (PflagUserMetadataName env) = Inl err)"
  shows "runSign env cmdOpts
           = (Inl err,
              CallGetSigner (SignerFlagOpts cmdOpts)
              # (if localContent cmdOpts then []
                 else [CallGetSignatureRepositoryForSign (reference cmdOpts)
                         (signatureManifest cmdOpts = signatureManifestImage)]))"
  using assms
  by (auto simp: runSign_def signRemote_def signLocal_def prepareRemoteSigningContent_def Let_def)

lemma more_opts [simp]:
  "SignerFlagOpts duplicateOpts = \<lparr>SignatureFormat = ''jws''\<rparr>"
  "SecureFlagOpts duplicateOpts = ()"
  "pluginConfig duplicateOpts = [''k=1'', ''k=2'']"
  "userMetadata duplicateOpts = []"
  "signatureManifest duplicateOpts = ''image''"
  "\<not> localContent duplicateOpts"
  "SignerFlagOpts unknownFormatOpts = \<lparr>SignatureFormat = ''pgp''\<rparr>"
  "SecureFlagOpts unknownFormatOpts = ()"
  "pluginConfig unknownFormatOpts = []"
  "userMetadata unknownFormatOpts = []"
  "signatureManifest unknownFormatOpts = ''image''"
  "\<not> localContent unknownFormatOpts"
  by (simp_all add: duplicateOpts_def unknownFormatOpts_def)

lemma example_rejections [simp]:
  "rejectedEntries [''novalue'']"
  "rejectedEntries [''k=1'', ''k=2'']"
  "\<not> rejectedEntries []"
  "flagMapError [''novalue''] name = GoError (''could not parse flag '' @ name) False"
  "flagMapError [''k=1'', ''k=2''] name = GoError (''duplicated key in flag '' @ name) False"
  "isl (GetEnvelopeMediaType exampleEnv ''pgp'')"
  by (simp_all add: rejectedEntries_def malformedEntry_def duplicateKey_def flagKey_def
      flagMapError_def exampleEnv_def)



section \<open>The claims\<close>

text \<open>
  Claim C10. Invoking the command with no positional argument fails with the error
  "missing reference"; this happens before the manifest kind is validated and before
  the signer is set up: the result is the same for every environment and for all
  options, an invalid manifest kind included, and the run has no effect at all.
\<close>

theorem missing_reference_rejected_first:
  "execute env opts [] = (Inl (errors_New ''missing reference''), [])"
  by (simp add: execute_def signCommand_Args_def)

theorem missing_reference_rejected_first_witness:
  "execute exampleEnv (exampleOpts\<lparr>signatureManifest := ''container''\<rparr>) []
     = (Inl (GoError ''missing reference'' False), [])"
  using missing_reference_rejected_first
    [of exampleEnv "exampleOpts\<lparr>signatureManifest := ''container''\<rparr>"]
  by (simp add: errors_New_def)

text \<open>
  Claim C3. The signature manifest kind is checked against exactly the two strings
  "image" and "artifact", case-sensitively. With any other kind an invocation fails
  and has no effect: nothing is resolved, signed, read or written; when a reference
  was given the failure is the error naming the two supported kinds and the rejected
  one. With one of the two kinds and a reference the invocation goes on to
  \<open>runSign\<close>, with the first argument stored as the reference.
\<close>

theorem signature_manifest_validated_before_run:
  "(validateSignatureManifest kind \<longleftrightarrow> kind = ''image'' \<or> kind = ''artifact'')
   \<and> (\<not> validateSignatureManifest (signatureManifest opts) \<longrightarrow>
         isl (fst (execute env opts args)) \<and> snd (execute env opts args) = []
         \<and> execute env opts (a # rest) =
             (Inl (fmt_Errorf
                    (''signature manifest must be one of the following [artifact image] but got ''
                     @ signatureManifest opts)), []))
   \<and> (validateSignatureManifest (signatureManifest opts) \<longrightarrow>
         execute env opts (a # rest) = runSign env (opts\<lparr>reference := a\<rparr>))"
  by (auto simp: validate_iff execute_def signCommand_Args_def signCommand_RunE_def
      supportedSignatureManifest_def fmt_v_strings_def signatureManifestArtifact_def
      signatureManifestImage_def)

theorem signature_manifest_validated_before_run_witness:
  "\<not> validateSignatureManifest ''container''
   \<and> \<not> validateSignatureManifest ''Image''
   \<and> validateSignatureManifest ''image''
   \<and> validateSignatureManifest ''artifact''
   \<and> execute exampleEnv (exampleOpts\<lparr>signatureManifest := ''container''\<rparr>)
        [''registry.example.com/repo:v1'']
      = (Inl (GoError
            ''signature manifest must be one of the following [artifact image] but got container''
            False), [])
   \<and> execute exampleEnv exampleOpts [''registry.example.com/repo:v1'']
      = runSign exampleEnv (exampleOpts\<lparr>reference := ''registry.example.com/repo:v1''\<rparr>)"
  using signature_manifest_validated_before_run
      [of "''container''" "exampleOpts\<lparr>signatureManifest := ''container''\<rparr>" exampleEnv
        "[''registry.example.com/repo:v1'']" "''registry.example.com/repo:v1''" "[]"]
    signature_manifest_validated_before_run
      [of "''Image''" exampleOpts exampleEnv
        "[''registry.example.com/repo:v1'']" "''registry.example.com/repo:v1''" "[]"]
    signature_manifest_validated_before_run [of "''image''" exampleOpts exampleEnv "[]" "[]" "[]"]
    signature_manifest_validated_before_run [of "''artifact''" exampleOpts exampleEnv "[]" "[]" "[]"]
  by (simp add: fmt_Errorf_def)

text \<open>
  Claim C1. A remote run with the manifest kind "image" in which \<open>notation.Sign\<close>
  returns a push failure whose text contains "failed to delete dangling referrers
  index" writes the warning about the outdated referrers index to standard error,
  then prints the success line with the reference that was signed, and returns no
  error. The reference printed is the artifact reference of the signing request.
\<close>

theorem stale_referrers_cleanup_reported_as_success:
  assumes "signatureManifest opts = signatureManifestImage"
      and "\<not> localContent opts"
      and "GetSigner env (SignerFlagOpts opts) = Inr signer"
      and "getSignatureRepositoryForSign env (SecureFlagOpts opts) a True = Inr sigRepo"
      and "prepareRemoteSigningContent env (opts\<lparr>reference := a\<rparr>) sigRepo
             = (Inr (signOptions, ref), tr)"
      and "Sign env signer sigRepo signOptions = Inl err"
      and "AsErrorPushSignatureFailed err"
      and "strings_Contains (Error err) referrersTagSchemaDeleteError"
  shows "execute env opts (a # rest) =
           (Inr (), [CallGetSigner (SignerFlagOpts opts),
                     CallGetSignatureRepositoryForSign a True] @ tr @
                    [CallSign sigRepo signOptions, Stderr referrersWarning,
                     Stdout (successLine (ReferenceString env ref))])
         \<and> ArtifactReference signOptions = ReferenceString env ref"
proof -
  from assms(5) have "ArtifactReference signOptions = ReferenceString env ref"
    unfolding prepareRemoteSigningContent_def
    by (auto split: sum.splits prod.splits)
  with assms show ?thesis
    by (simp add: execute_def signCommand_Args_def signCommand_RunE_def validate_iff
        runSign_def signRemote_def signatureManifestImage_def)
qed

theorem stale_referrers_cleanup_reported_as_success_witness:
  "execute staleIndexEnv exampleOpts [''registry.example.com/repo:v1''] =
     (Inr (), [CallGetSigner \<lparr>SignatureFormat = ''jws''\<rparr>,
               CallGetSignatureRepositoryForSign ''registry.example.com/repo:v1'' True,
               CallResolve ''registry.example.com/repo'' ''v1'',
               Stderr (tagWarning ''v1''),
               CallSign ''registry.example.com/repo''
                 (exampleRequest ''registry.example.com/repo@sha256:ef01''),
               Stderr referrersWarning,
               Stdout (successLine ''registry.example.com/repo@sha256:ef01'')])"
proof -
  have kind: "signatureManifest exampleOpts = signatureManifestImage"
    by (simp add: signatureManifestImage_def)
  have remote: "\<not> localContent exampleOpts" by simp
  have signer: "GetSigner staleIndexEnv (SignerFlagOpts exampleOpts) = Inr ()"
    by (simp add: stale_fields)
  have repo: "getSignatureRepositoryForSign staleIndexEnv (SecureFlagOpts exampleOpts)
                ''registry.example.com/repo:v1'' True = Inr ''registry.example.com/repo''"
    by (simp add: stale_fields)
  have prepared: "prepareRemoteSigningContent staleIndexEnv
        (exampleOpts\<lparr>reference := ''registry.example.com/repo:v1''\<rparr>)
        ''registry.example.com/repo''
      = (Inr (exampleRequest ''registry.example.com/repo@sha256:ef01'',
              \<lparr>Registry = ''registry.example.com'', Repository = ''repo'',
                Reference = ''sha256:ef01''\<rparr>),
         [CallResolve ''registry.example.com/repo'' ''v1'', Stderr (tagWarning ''v1'')])"
    using example_prepare_tag [of "''image''"] by (simp add: stale_prepare exampleOpts_def)
  have failed: "Sign staleIndexEnv () ''registry.example.com/repo''
        (exampleRequest ''registry.example.com/repo@sha256:ef01'') = Inl staleIndexError"
    by (simp add: stale_fields)
  from stale_referrers_cleanup_reported_as_success
    [OF kind remote signer repo prepared failed stale_index_error, of "[]"]
  show ?thesis by (simp add: stale_fields)
qed

text \<open>
  Claim C2. A remote run with the manifest kind "artifact" in which \<open>notation.Sign\<close>
  returns a push failure fails, whether or not the text of the failure contains the
  referrers-cleanup marker. The error returned is the text of the failure followed by
  the guidance to drop the flag and store signatures using the OCI image manifest. No
  line is printed after the call of \<open>notation.Sign\<close>.
\<close>

theorem artifact_manifest_push_failure_gets_hint:
  assumes "signatureManifest opts = signatureManifestArtifact"
      and "\<not> localContent opts"
      and "GetSigner env (SignerFlagOpts opts) = Inr signer"
      and "getSignatureRepositoryForSign env (SecureFlagOpts opts) a False = Inr sigRepo"
      and "prepareRemoteSigningContent env (opts\<lparr>reference := a\<rparr>) sigRepo
             = (Inr (signOptions, ref), tr)"
      and "Sign env signer sigRepo signOptions = Inl err"
      and "AsErrorPushSignatureFailed err"
  shows "execute env opts (a # rest) =
           (Inl (fmt_Errorf (Error err @ artifactManifestHint)),
            [CallGetSigner (SignerFlagOpts opts),
             CallGetSignatureRepositoryForSign a False] @ tr @
            [CallSign sigRepo signOptions])"
  using assms
  by (simp add: execute_def signCommand_Args_def signCommand_RunE_def validate_iff
      runSign_def signRemote_def signatureManifestImage_def signatureManifestArtifact_def)

theorem artifact_manifest_push_failure_gets_hint_witness:
  "strings_Contains (Error staleIndexError) referrersTagSchemaDeleteError
   \<and> execute staleIndexEnv (exampleOpts\<lparr>signatureManifest := ''artifact''\<rparr>)
        [''registry.example.com/repo:v1''] =
     (Inl (GoError (Error staleIndexError @ artifactManifestHint) False),
      [CallGetSigner \<lparr>SignatureFormat = ''jws''\<rparr>,
       CallGetSignatureRepositoryForSign ''registry.example.com/repo:v1'' False,
       CallResolve ''registry.example.com/repo'' ''v1'',
       Stderr (tagWarning ''v1''),
       CallSign ''registry.example.com/repo''
         (exampleRequest ''registry.example.com/repo@sha256:ef01'')])"
proof -
  let ?opts = "exampleOpts\<lparr>signatureManifest := ''artifact''\<rparr>"
  have kind: "signatureManifest ?opts = signatureManifestArtifact"
    by (simp add: signatureManifestArtifact_def)
  have remote: "\<not> localContent ?opts" by simp
  have signer: "GetSigner staleIndexEnv (SignerFlagOpts ?opts) = Inr ()"
    by (simp add: stale_fields)
  have repo: "getSignatureRepositoryForSign staleIndexEnv (SecureFlagOpts ?opts)
                ''registry.example.com/repo:v1'' False = Inr ''registry.example.com/repo''"
    by (simp add: stale_fields)
  have prepared: "prepareRemoteSigningContent staleIndexEnv
        (?opts\<lparr>reference := ''registry.example.com/repo:v1''\<rparr>)
        ''registry.example.com/repo''
      = (Inr (exampleRequest ''registry.example.com/repo@sha256:ef01'',
              \<lparr>Registry = ''registry.example.com'', Repository = ''repo'',
                Reference = ''sha256:ef01''\<rparr>),
         [CallResolve ''registry.example.com/repo'' ''v1'', Stderr (tagWarning ''v1'')])"
    using example_prepare_tag [of "''artifact''"] by (simp add: stale_prepare exampleOpts_def)
  have failed: "Sign staleIndexEnv () ''registry.example.com/repo''
        (exampleRequest ''registry.example.com/repo@sha256:ef01'') = Inl staleIndexError"
    by (simp add: stale_fields)
  from artifact_manifest_push_failure_gets_hint
    [OF kind remote signer repo prepared failed stale_index_error(1), of "[]"]
  show ?thesis by (simp add: stale_fields fmt_Errorf_def)
qed

text \<open>
  Claim C4. In a local run, once the media type, the two flag maps, the layout
  reference and the layout repository are there and the target resolves in the
  layout, \<open>notation.Sign\<close> is called, after the resolution, with a signing request
  whose artifact reference is the layout path, \<open>@\<close> and the digest of the resolved
  descriptor; the run is written out in full. The reference is built from the resolved
  digest and not from what the user wrote after the path: when the two differ it is
  not the path with the user's tag. Conversely every call of \<open>notation.Sign\<close> in any
  local run carries such a request and follows the resolution, and a local run that
  succeeds has made the call.
\<close>

theorem local_request_pinned_to_resolved_digest:
  "(GetEnvelopeMediaType env (SignatureFormat (SignerFlagOpts cmdOpts)) = Inr mediaType
      \<and> ParseFlagMap env (pluginConfig cmdOpts) (PflagPluginConfigName env) = Inr pc
      \<and> ParseFlagMap env (userMetadata cmdOpts) (PflagUserMetadataName env) = Inr um
      \<and> parseOCILayoutReference env (reference cmdOpts) = Inr (path, ref)
      \<and> ociLayoutRepositoryForSign env path oci = Inr repo
      \<and> Resolve env repo ref = Inr targetDesc
    \<longrightarrow> signLocal env cmdOpts signer oci =
          (case Sign env signer repo
                  \<lparr>ArtifactReference = localArtifactReference path (Digest targetDesc),
                   SignatureMediaType = mediaType, ExpiryDuration = expiry cmdOpts,
                   PluginConfig = pc, UserMetadata = um\<rparr> of
             Inl err \<Rightarrow> Inl err | Inr signedDesc \<Rightarrow> Inr (),
           [CallOciLayoutRepositoryForSign path oci, CallResolve repo ref,
            Stdout (layoutResolvedLine ref (fmtDescriptor env targetDesc))]
           @ (if \<not> digestValidate env ref then [Stderr (tagWarning ref)] else [])
           @ CallSign repo
               \<lparr>ArtifactReference = localArtifactReference path (Digest targetDesc),
                SignatureMediaType = mediaType, ExpiryDuration = expiry cmdOpts,
                PluginConfig = pc, UserMetadata = um\<rparr>
           # (case Sign env signer repo
                    \<lparr>ArtifactReference = localArtifactReference path (Digest targetDesc),
                     SignatureMediaType = mediaType, ExpiryDuration = expiry cmdOpts,
                     PluginConfig = pc, UserMetadata = um\<rparr> of
                Inl err \<Rightarrow> []
              | Inr signedDesc \<Rightarrow> [Stdout (successLine (path @ ''@'' @ Digest signedDesc))]))
        \<and> (Digest targetDesc \<noteq> ref \<longrightarrow>
              localArtifactReference path (Digest targetDesc) \<noteq> localArtifactReference path ref))
   \<and> (\<forall>sigRepo so. CallSign sigRepo so \<in> set (snd (signLocal env cmdOpts signer oci)) \<longrightarrow>
         (\<exists>p r d pre post.
               parseOCILayoutReference env (reference cmdOpts) = Inr (p, r)
             \<and> ociLayoutRepositoryForSign env p oci = Inr sigRepo
             \<and> Resolve env sigRepo r = Inr d
             \<and> ArtifactReference so = localArtifactReference p (Digest d)
             \<and> snd (signLocal env cmdOpts signer oci) = pre @ CallSign sigRepo so # post
             \<and> CallResolve sigRepo r \<in> set pre
             \<and> (Digest d \<noteq> r \<longrightarrow> ArtifactReference so \<noteq> localArtifactReference p r)))
   \<and> (fst (signLocal env cmdOpts signer oci) = Inr () \<longrightarrow>
         (\<exists>sigRepo so. CallSign sigRepo so \<in> set (snd (signLocal env cmdOpts signer oci))))"
proof (intro conjI allI impI)
  assume steps: "GetEnvelopeMediaType env (SignatureFormat (SignerFlagOpts cmdOpts)) = Inr mediaType
      \<and> ParseFlagMap env (pluginConfig cmdOpts) (PflagPluginConfigName env) = Inr pc
      \<and> ParseFlagMap env (userMetadata cmdOpts) (PflagUserMetadataName env) = Inr um
      \<and> parseOCILayoutReference env (reference cmdOpts) = Inr (path, ref)
      \<and> ociLayoutRepositoryForSign env path oci = Inr repo
      \<and> Resolve env repo ref = Inr targetDesc"
  then show "signLocal env cmdOpts signer oci =
          (case Sign env signer repo
                  \<lparr>ArtifactReference = localArtifactReference path (Digest targetDesc),
                   SignatureMediaType = mediaType, ExpiryDuration = expiry cmdOpts,
                   PluginConfig = pc, UserMetadata = um\<rparr> of
             Inl err \<Rightarrow> Inl err | Inr signedDesc \<Rightarrow> Inr (),
           [CallOciLayoutRepositoryForSign path oci, CallResolve repo ref,
            Stdout (layoutResolvedLine ref (fmtDescriptor env targetDesc))]
           @ (if \<not> digestValidate env ref then [Stderr (tagWarning ref)] else [])
           @ CallSign repo
               \<lparr>ArtifactReference = localArtifactReference path (Digest targetDesc),
                SignatureMediaType = mediaType, ExpiryDuration = expiry cmdOpts,
                PluginConfig = pc, UserMetadata = um\<rparr>
           # (case Sign env signer repo
                    \<lparr>ArtifactReference = localArtifactReference path (Digest targetDesc),
                     SignatureMediaType = mediaType, ExpiryDuration = expiry cmdOpts,
                     PluginConfig = pc, UserMetadata = um\<rparr> of
                Inl err \<Rightarrow> []
              | Inr signedDesc \<Rightarrow> [Stdout (successLine (path @ ''@'' @ Digest signedDesc))]))"
    using signLocal_past_resolution [of env cmdOpts mediaType pc um path ref oci repo targetDesc _ signer]
    by simp
next
  assume "Digest targetDesc \<noteq> ref"
  then show "localArtifactReference path (Digest targetDesc) \<noteq> localArtifactReference path ref"
    by (simp add: localArtifactReference_def)
next
  fix sigRepo so
  assume "CallSign sigRepo so \<in> set (snd (signLocal env cmdOpts signer oci))"
  with signLocal_sign_pinned [of env cmdOpts signer oci "fst (signLocal env cmdOpts signer oci)"
      "snd (signLocal env cmdOpts signer oci)" sigRepo so]
  show "\<exists>p r d pre post.
               parseOCILayoutReference env (reference cmdOpts) = Inr (p, r)
             \<and> ociLayoutRepositoryForSign env p oci = Inr sigRepo
             \<and> Resolve env sigRepo r = Inr d
             \<and> ArtifactReference so = localArtifactReference p (Digest d)
             \<and> snd (signLocal env cmdOpts signer oci) = pre @ CallSign sigRepo so # post
             \<and> CallResolve sigRepo r \<in> set pre
             \<and> (Digest d \<noteq> r \<longrightarrow> ArtifactReference so \<noteq> localArtifactReference p r)"
    by simp
next
  assume "fst (signLocal env cmdOpts signer oci) = Inr ()"
  then show "\<exists>sigRepo so. CallSign sigRepo so \<in> set (snd (signLocal env cmdOpts signer oci))"
    using signLocal_success_signed [of env cmdOpts signer oci "()"
        "snd (signLocal env cmdOpts signer oci)"]
    by (metis prod.collapse)
qed

theorem local_request_pinned_to_resolved_digest_witness:
  "signLocal exampleEnv (exampleLocalOpts ''/local/layout:v1'') () True =
     (Inr (),
      [CallOciLayoutRepositoryForSign ''/local/layout'' True,
       CallResolve ''/local/layout'' ''v1'',
       Stdout (layoutResolvedLine ''v1''
                 ''{MediaType:application/vnd.oci.image.manifest.v1+json Digest:sha256:ef01}''),
       Stderr (tagWarning ''v1''),
       CallSign ''/local/layout'' (exampleRequest ''/local/layout@sha256:ef01''),
       Stdout (successLine ''/local/layout@sha256:ef01'')])
   \<and> localArtifactReference ''/local/layout'' ''sha256:ef01''
        \<noteq> localArtifactReference ''/local/layout'' ''v1''"
proof -
  let ?opts = "exampleLocalOpts ''/local/layout:v1''"
  have steps: "GetEnvelopeMediaType exampleEnv (SignatureFormat (SignerFlagOpts ?opts))
        = Inr ''application/jose+json''
      \<and> ParseFlagMap exampleEnv (pluginConfig ?opts) (PflagPluginConfigName exampleEnv)
        = Inr Map.empty
      \<and> ParseFlagMap exampleEnv (userMetadata ?opts) (PflagUserMetadataName exampleEnv)
        = Inr Map.empty
      \<and> parseOCILayoutReference exampleEnv (reference ?opts) = Inr (''/local/layout'', ''v1'')
      \<and> ociLayoutRepositoryForSign exampleEnv ''/local/layout'' True = Inr ''/local/layout''
      \<and> Resolve exampleEnv ''/local/layout'' ''v1'' = Inr exampleDescriptor"
    by simp
  have differ: "Digest exampleDescriptor \<noteq> ''v1''" by simp
  from local_request_pinned_to_resolved_digest [where signer = "()", THEN conjunct1, THEN mp, OF steps] differ
  show ?thesis
    by (simp add: exampleRequest_def localArtifactReference_def)
qed


text \<open>
  Claim C9. The reclassification of push failures belongs to the remote path only. In
  a local run, whatever error \<open>notation.Sign\<close> returns is the error of the run,
  unchanged, also when it is a push failure that carries the referrers-cleanup
  marker; the call of \<open>notation.Sign\<close> is the last effect of the run, so neither the
  referrers warning nor a success line is written.
\<close>

theorem local_sign_error_propagated_verbatim:
  assumes "signLocal env cmdOpts signer oci = (res, tr)"
      and "CallSign repo so \<in> set tr"
      and "Sign env signer repo so = Inl err"
  shows "res = Inl err \<and> \<not> list_ex isSuccessLine tr \<and> Stderr referrersWarning \<notin> set tr
         \<and> last tr = CallSign repo so"
proof -
  from signLocal_sign_called [OF assms(1,2)]
  obtain mediaType pc um path ref targetDesc where
    steps: "GetEnvelopeMediaType env (SignatureFormat (SignerFlagOpts cmdOpts)) = Inr mediaType"
      "ParseFlagMap env (pluginConfig cmdOpts) (PflagPluginConfigName env) = Inr pc"
      "ParseFlagMap env (userMetadata cmdOpts) (PflagUserMetadataName env) = Inr um"
      "parseOCILayoutReference env (reference cmdOpts) = Inr (path, ref)"
      "ociLayoutRepositoryForSign env path oci = Inr repo"
      "Resolve env repo ref = Inr targetDesc"
    and so: "so = \<lparr>ArtifactReference = localArtifactReference path (Digest targetDesc),
                  SignatureMediaType = mediaType, ExpiryDuration = expiry cmdOpts,
                  PluginConfig = pc, UserMetadata = um\<rparr>"
    by blast
  from signLocal_past_resolution [OF steps so, of signer] assms(1,3) warnings_differ [of ref]
  show ?thesis by auto
qed

theorem local_sign_error_propagated_verbatim_witness:
  "signLocal staleIndexEnv (exampleLocalOpts ''/local/layout:v1'') () True
     = (Inl staleIndexError,
        [CallOciLayoutRepositoryForSign ''/local/layout'' True,
         CallResolve ''/local/layout'' ''v1'',
         Stdout (layoutResolvedLine ''v1''
                   ''{MediaType:application/vnd.oci.image.manifest.v1+json Digest:sha256:ef01}''),
         Stderr (tagWarning ''v1''),
         CallSign ''/local/layout'' (exampleRequest ''/local/layout@sha256:ef01'')])
   \<and> AsErrorPushSignatureFailed staleIndexError
   \<and> strings_Contains (Error staleIndexError) referrersTagSchemaDeleteError
   \<and> \<not> list_ex isSuccessLine (snd (signLocal staleIndexEnv
                                      (exampleLocalOpts ''/local/layout:v1'') () True))
   \<and> Stderr referrersWarning
        \<notin> set (snd (signLocal staleIndexEnv (exampleLocalOpts ''/local/layout:v1'') () True))"
proof -
  have called: "CallSign ''/local/layout'' (exampleRequest ''/local/layout@sha256:ef01'')
      \<in> set [CallOciLayoutRepositoryForSign ''/local/layout'' True,
         CallResolve ''/local/layout'' ''v1'',
         Stdout (layoutResolvedLine ''v1''
                   ''{MediaType:application/vnd.oci.image.manifest.v1+json Digest:sha256:ef01}''),
         Stderr (tagWarning ''v1''),
         CallSign ''/local/layout'' (exampleRequest ''/local/layout@sha256:ef01'')]"
    by simp
  have failed: "Sign staleIndexEnv () ''/local/layout''
      (exampleRequest ''/local/layout@sha256:ef01'') = Inl staleIndexError"
    by (simp add: stale_fields)
  from local_sign_error_propagated_verbatim [OF stale_local_run called failed]
  show ?thesis by (simp add: stale_local_run)
qed

text \<open>
  Claim C5. When the steps up to the resolution succeed and the reference resolves, the
  warning about mutable tags is written exactly once if the tag or digest the user
  gave does not pass digest-format validation, and is not written at all if it does.
  On the local path this is lines 209 to 212. On the remote path the warning is the
  callback of lines 164 to 166, which the resolver calls when the input was a tag; the
  resolver's test also asks that the resolved digest differ from the input, which
  holds for a tag whenever the digest of the resolved descriptor is well-formed.
\<close>

theorem tag_warning_once_for_tag_never_for_digest:
  assumes "GetSigner env (SignerFlagOpts cmdOpts) = Inr signer"
      and "GetEnvelopeMediaType env (SignatureFormat (SignerFlagOpts cmdOpts)) = Inr mediaType"
      and "ParseFlagMap env (pluginConfig cmdOpts) (PflagPluginConfigName env) = Inr pc"
      and "ParseFlagMap env (userMetadata cmdOpts) (PflagUserMetadataName env) = Inr um"
      and "if localContent cmdOpts
           then parseOCILayoutReference env (reference cmdOpts) = Inr (path, tagOrDigest)
              \<and> ociLayoutRepositoryForSign env path
                   (signatureManifest cmdOpts = signatureManifestImage) = Inr repo
           else getSignatureRepositoryForSign env (SecureFlagOpts cmdOpts) (reference cmdOpts)
                   (signatureManifest cmdOpts = signatureManifestImage) = Inr repo
              \<and> ParseReference env (reference cmdOpts) = Inr parsed
              \<and> Reference parsed = tagOrDigest
              \<and> digestValidate env (Digest targetDesc)"
      and "Resolve env repo tagOrDigest = Inr targetDesc"
  shows "length (filter isTagWarning (snd (runSign env cmdOpts)))
           = (if digestValidate env tagOrDigest then 0 else 1)"
proof (cases "localContent cmdOpts")
  case True
  with assms(5) have place:
    "parseOCILayoutReference env (reference cmdOpts) = Inr (path, tagOrDigest)"
    "ociLayoutRepositoryForSign env path
       (signatureManifest cmdOpts = signatureManifestImage) = Inr repo"
    by simp_all
  show ?thesis
    using True assms(1)
      signLocal_past_resolution [OF assms(2,3,4) place assms(6) refl, of signer]
    by (simp add: runSign_def Let_def split: sum.splits)
next
  case False
  with assms(5) have place:
    "getSignatureRepositoryForSign env (SecureFlagOpts cmdOpts) (reference cmdOpts)
       (signatureManifest cmdOpts = signatureManifestImage) = Inr repo"
    "ParseReference env (reference cmdOpts) = Inr parsed"
    "Reference parsed = tagOrDigest"
    "digestValidate env (Digest targetDesc)"
    by simp_all
  from assms(6) place(3) have res: "Resolve env repo (Reference parsed) = Inr targetDesc"
    by simp
  have differ: "\<not> digestValidate env tagOrDigest \<Longrightarrow> Digest targetDesc \<noteq> tagOrDigest"
    using place(4) by auto
  show ?thesis
    using False assms(1) place(1,3) differ
      prepare_past_resolution [OF assms(2,3,4) place(2) res]
    by (simp add: runSign_def signRemote_def Let_def split: sum.splits)
qed

theorem tag_warning_once_for_tag_never_for_digest_witness:
  "length (filter isTagWarning (snd (runSign exampleEnv (exampleLocalOpts ''/local/layout:v1''))))
     = 1
   \<and> length (filter isTagWarning
        (snd (runSign exampleEnv
               (exampleOpts\<lparr>reference := ''registry.example.com/repo@sha256:ef01''\<rparr>))))
     = 0"
proof -
  let ?loc = "exampleLocalOpts ''/local/layout:v1''"
  let ?rem = "exampleOpts\<lparr>reference := ''registry.example.com/repo@sha256:ef01''\<rparr>"
  have local_place:
    "if localContent ?loc
     then parseOCILayoutReference exampleEnv (reference ?loc) = Inr (''/local/layout'', ''v1'')
        \<and> ociLayoutRepositoryForSign exampleEnv ''/local/layout''
             (signatureManifest ?loc = signatureManifestImage) = Inr ''/local/layout''
     else getSignatureRepositoryForSign exampleEnv (SecureFlagOpts ?loc) (reference ?loc)
             (signatureManifest ?loc = signatureManifestImage) = Inr ''/local/layout''
        \<and> ParseReference exampleEnv (reference ?loc) = Inr \<lparr>Registry = [], Repository = [],
             Reference = []\<rparr>
        \<and> Reference \<lparr>Registry = [], Repository = [], Reference = []\<rparr> = ''v1''
        \<and> digestValidate exampleEnv (Digest exampleDescriptor)"
    by simp
  have remote_place:
    "if localContent ?rem
     then parseOCILayoutReference exampleEnv (reference ?rem) = Inr ([], ''sha256:ef01'')
        \<and> ociLayoutRepositoryForSign exampleEnv []
             (signatureManifest ?rem = signatureManifestImage) = Inr ''registry.example.com/repo''
     else getSignatureRepositoryForSign exampleEnv (SecureFlagOpts ?rem) (reference ?rem)
             (signatureManifest ?rem = signatureManifestImage) = Inr ''registry.example.com/repo''
        \<and> ParseReference exampleEnv (reference ?rem)
             = Inr \<lparr>Registry = ''registry.example.com'', Repository = ''repo'',
                    Reference = ''sha256:ef01''\<rparr>
        \<and> Reference \<lparr>Registry = ''registry.example.com'', Repository = ''repo'',
                      Reference = ''sha256:ef01''\<rparr> = ''sha256:ef01''
        \<and> digestValidate exampleEnv (Digest exampleDescriptor)"
    by simp
  have "length (filter isTagWarning (snd (runSign exampleEnv ?loc)))
          = (if digestValidate exampleEnv ''v1'' then 0 else 1)"
    by (rule tag_warning_once_for_tag_never_for_digest [OF _ _ _ _ local_place]) simp_all
  moreover have "length (filter isTagWarning (snd (runSign exampleEnv ?rem)))
          = (if digestValidate exampleEnv ''sha256:ef01'' then 0 else 1)"
    by (rule tag_warning_once_for_tag_never_for_digest [OF _ _ _ _ remote_place]) simp_all
  ultimately show ?thesis by simp
qed



text \<open>
  Claim C7, as the code has it, with the flag map parser of the spec. Argument errors
  (no reference, a manifest kind other than the two supported ones) fail at once with
  no effect. Format errors (an envelope format without a media type, plugin
  configuration or user metadata entries that are malformed or repeat a key, a
  reference that does not parse) fail the run before any reference is resolved, any
  layout is opened, anything is signed and any line is written: the only effects of
  such a run are the calls that load the signer and, on the remote path, build the
  client of the signature repository, which come first (lines 109 and 121 stand before
  lines 152 to 163 and 183 to 199). When the manifest kind is valid, those calls
  succeed and the envelope format has a media type, rejected entries make the parser's
  error the error of the run.
\<close>

theorem flag_maps_rejected_before_resolution:
  "(args = [] \<or> \<not> validateSignatureManifest (signatureManifest opts) \<longrightarrow>
       isl (fst (execute (specParser env) opts args))
     \<and> snd (execute (specParser env) opts args) = [])
   \<and> (isl (GetEnvelopeMediaType env (SignatureFormat (SignerFlagOpts opts)))
       \<or> rejectedEntries (pluginConfig opts)
       \<or> rejectedEntries (userMetadata opts)
       \<or> (if localContent opts then isl (parseOCILayoutReference env a)
           else isl (ParseReference env a))
      \<longrightarrow> isl (fst (execute (specParser env) opts (a # rest)))
        \<and> list_all isSetupCall (snd (execute (specParser env) opts (a # rest))))
   \<and> (validateSignatureManifest (signatureManifest opts)
       \<and> GetSigner env (SignerFlagOpts opts) = Inr signer
       \<and> (localContent opts
           \<or> getSignatureRepositoryForSign env (SecureFlagOpts opts) a
                (signatureManifest opts = signatureManifestImage) = Inr sigRepo)
       \<and> GetEnvelopeMediaType env (SignatureFormat (SignerFlagOpts opts)) = Inr mediaType
       \<and> (rejectedEntries (pluginConfig opts) \<or> rejectedEntries (userMetadata opts))
      \<longrightarrow> execute (specParser env) opts (a # rest)
            = (Inl (if rejectedEntries (pluginConfig opts)
                    then flagMapError (pluginConfig opts) (PflagPluginConfigName env)
                    else flagMapError (userMetadata opts) (PflagUserMetadataName env)),
               CallGetSigner (SignerFlagOpts opts)
               # (if localContent opts then []
                  else [CallGetSignatureRepositoryForSign a
                          (signatureManifest opts = signatureManifestImage)])))"
proof (intro conjI impI)
  assume "args = [] \<or> \<not> validateSignatureManifest (signatureManifest opts)"
  then show "isl (fst (execute (specParser env) opts args))"
    and "snd (execute (specParser env) opts args) = []"
    by (auto simp: execute_def signCommand_Args_def signCommand_RunE_def)
next
  let ?opts = "opts\<lparr>reference := a\<rparr>"
  assume "isl (GetEnvelopeMediaType env (SignatureFormat (SignerFlagOpts opts)))
       \<or> rejectedEntries (pluginConfig opts)
       \<or> rejectedEntries (userMetadata opts)
       \<or> (if localContent opts then isl (parseOCILayoutReference env a)
           else isl (ParseReference env a))"
  then have run: "isl (fst (runSign (specParser env) ?opts))
      \<and> list_all isSetupCall (snd (runSign (specParser env) ?opts))"
    by (intro runSign_format_error) (auto split: if_splits)
  then show "isl (fst (execute (specParser env) opts (a # rest)))"
    and "list_all isSetupCall (snd (execute (specParser env) opts (a # rest)))"
    by (simp_all add: execute_def signCommand_Args_def signCommand_RunE_def)
next
  let ?opts = "opts\<lparr>reference := a\<rparr>"
  assume ok: "validateSignatureManifest (signatureManifest opts)
       \<and> GetSigner env (SignerFlagOpts opts) = Inr signer
       \<and> (localContent opts
           \<or> getSignatureRepositoryForSign env (SecureFlagOpts opts) a
                (signatureManifest opts = signatureManifestImage) = Inr sigRepo)
       \<and> GetEnvelopeMediaType env (SignatureFormat (SignerFlagOpts opts)) = Inr mediaType
       \<and> (rejectedEntries (pluginConfig opts) \<or> rejectedEntries (userMetadata opts))"
  let ?err = "if rejectedEntries (pluginConfig opts)
                    then flagMapError (pluginConfig opts) (PflagPluginConfigName env)
                    else flagMapError (userMetadata opts) (PflagUserMetadataName env)"
  let ?pc = "map_of (map (\<lambda>pair. (flagKey pair, flagValue pair)) (pluginConfig opts))"
  from ok have rejected:
    "ParseFlagMap (specParser env) (pluginConfig ?opts) (PflagPluginConfigName (specParser env))
       = Inl ?err
     \<or> (ParseFlagMap (specParser env) (pluginConfig ?opts) (PflagPluginConfigName (specParser env))
          = Inr ?pc
        \<and> ParseFlagMap (specParser env) (userMetadata ?opts) (PflagUserMetadataName (specParser env))
          = Inl ?err)"
    by (auto simp: cmd_ParseFlagMap_def)
  from ok have "runSign (specParser env) ?opts
           = (Inl ?err,
              CallGetSigner (SignerFlagOpts ?opts)
              # (if localContent ?opts then []
                 else [CallGetSignatureRepositoryForSign (reference ?opts)
                         (signatureManifest ?opts = signatureManifestImage)]))"
    by (intro runSign_flag_map_error [OF _ _ _ rejected, of signer sigRepo mediaType]) simp_all
  with ok show "execute (specParser env) opts (a # rest)
            = (Inl ?err,
               CallGetSigner (SignerFlagOpts opts)
               # (if localContent opts then []
                  else [CallGetSignatureRepositoryForSign a
                          (signatureManifest opts = signatureManifestImage)]))"
    by (simp add: execute_def signCommand_Args_def signCommand_RunE_def)
qed


theorem flag_maps_rejected_before_resolution_witness:
  "execute (specParser exampleEnv) malformedOpts [''registry.example.com/repo:v1'']
     = (Inl (GoError ''could not parse flag plugin-config'' False),
        [CallGetSigner \<lparr>SignatureFormat = ''jws''\<rparr>,
         CallGetSignatureRepositoryForSign ''registry.example.com/repo:v1'' True])
   \<and> execute (specParser exampleEnv) duplicateOpts [''registry.example.com/repo:v1'']
     = (Inl (GoError ''duplicated key in flag plugin-config'' False),
        [CallGetSigner \<lparr>SignatureFormat = ''jws''\<rparr>,
         CallGetSignatureRepositoryForSign ''registry.example.com/repo:v1'' True])
   \<and> isl (fst (execute (specParser exampleEnv) unknownFormatOpts
                  [''registry.example.com/repo:v1'']))
   \<and> list_all isSetupCall
        (snd (execute (specParser exampleEnv) unknownFormatOpts
                [''registry.example.com/repo:v1'']))
   \<and> snd (execute (specParser exampleEnv) (exampleOpts\<lparr>signatureManifest := ''container''\<rparr>)
             [''registry.example.com/repo:v1'']) = []"
proof -
  note inst = flag_maps_rejected_before_resolution [where env = exampleEnv and a = "''registry.example.com/repo:v1''"
      and rest = "[]" and signer = "()" and sigRepo = "''registry.example.com/repo''"
      and mediaType = "''application/jose+json''"]
  have malformed: "execute (specParser exampleEnv) malformedOpts [''registry.example.com/repo:v1'']
     = (Inl (GoError ''could not parse flag plugin-config'' False),
        [CallGetSigner \<lparr>SignatureFormat = ''jws''\<rparr>,
         CallGetSignatureRepositoryForSign ''registry.example.com/repo:v1'' True])"
    using inst [where opts = malformedOpts, THEN conjunct2, THEN conjunct2]
    by (simp add: validate_iff signatureManifestImage_def)
  have duplicate: "execute (specParser exampleEnv) duplicateOpts [''registry.example.com/repo:v1'']
     = (Inl (GoError ''duplicated key in flag plugin-config'' False),
        [CallGetSigner \<lparr>SignatureFormat = ''jws''\<rparr>,
         CallGetSignatureRepositoryForSign ''registry.example.com/repo:v1'' True])"
    using inst [where opts = duplicateOpts, THEN conjunct2, THEN conjunct2]
    by (simp add: validate_iff signatureManifestImage_def)
  have format: "isl (fst (execute (specParser exampleEnv) unknownFormatOpts
                  [''registry.example.com/repo:v1'']))
     \<and> list_all isSetupCall
        (snd (execute (specParser exampleEnv) unknownFormatOpts
                [''registry.example.com/repo:v1'']))"
    using inst [where opts = unknownFormatOpts, THEN conjunct2, THEN conjunct1]
    by simp
  have kind: "snd (execute (specParser exampleEnv) (exampleOpts\<lparr>signatureManifest := ''container''\<rparr>)
             [''registry.example.com/repo:v1'']) = []"
    using inst [where opts = "exampleOpts\<lparr>signatureManifest := ''container''\<rparr>"
        and args = "[''registry.example.com/repo:v1'']", THEN conjunct1]
    by (simp add: validate_iff)
  from malformed duplicate format kind show ?thesis by simp
qed

text \<open>
  Claim C7, as the spec states it, fails: an entry without \<open>=\<close> is rejected only
  after the signer was loaded and the client of the remote repository was built, and
  when no signing key is configured the run fails on that and the entry is never
  looked at.
\<close>

theorem flag_maps_rejected_after_setup_calls:
  "rejectedEntries (pluginConfig malformedOpts)
   \<and> execute (specParser exampleEnv) malformedOpts [''registry.example.com/repo:v1'']
      = (Inl (GoError ''could not parse flag plugin-config'' False),
         [CallGetSigner \<lparr>SignatureFormat = ''jws''\<rparr>,
          CallGetSignatureRepositoryForSign ''registry.example.com/repo:v1'' True])
   \<and> snd (execute (specParser exampleEnv) malformedOpts [''registry.example.com/repo:v1''])
        \<noteq> []
   \<and> execute (specParser noKeyEnv) malformedOpts [''registry.example.com/repo:v1'']
      = (Inl noKeyError, [CallGetSigner \<lparr>SignatureFormat = ''jws''\<rparr>])"
  by (simp add: execute_def signCommand_Args_def signCommand_RunE_def validate_iff
      runSign_def signRemote_def prepareRemoteSigningContent_def signatureManifestImage_def
      noKeyEnv_def cmd_ParseFlagMap_def)






end
